theory Spec2Isabelle
  imports Main "HOL-Library.Word"
begin

section \<open>The radio module of pxt-microbit (libs/radio/radio.ts)\<close>

text \<open>
  The module is a binding layer: five registration functions wrap a user callback in a
  closure that takes one packet from the firmware, copies some of its properties into a
  fresh \<open>Packet\<close>, keeps that record in the module variable \<open>lastPacket\<close> and calls
  the user callback; \<open>getReceivedPacketProperty\<close> reads three fields of the retained
  record.

  Conventions of the embedding.
  \<^item> A TypeScript \<open>number\<close> is an \<open>int\<close>: the module only stores, compares and
    returns numbers, it never computes with them.
  \<^item> A \<open>Buffer\<close> is a list of bytes.
  \<^item> A field or variable that may not have been assigned yet has an option type:
    \<open>None\<close> is the state \<open>new Packet()\<close> leaves a field in (nothing assigned,
    \<open>undefined\<close> when read), \<open>Some v\<close> is the assigned value \<open>v\<close>.
\<close>

subsection \<open>Data model\<close>

type_synonym Buffer = "8 word list"

text \<open>\<open>export class Packet\<close>: six public fields, no constructor, no initialisers.\<close>

record Packet =
  receivedNumber :: "int option"
  receivedString :: "string option"
  receivedBuffer :: "Buffer option"
  time :: "int option"
  serial :: "int option"
  signal :: "int option"

text \<open>\<open>new Packet()\<close>: the class declares no constructor and no field initialiser, so
  no field is assigned.\<close>

definition new_Packet :: Packet where
  "new_Packet =
     \<lparr>receivedNumber = None, receivedString = None, receivedBuffer = None,
      time = None, serial = None, signal = None\<rparr>"

text \<open>
  \<open>export enum PacketProperty { Time, SerialNumber, SignalStrength }\<close>: a numeric
  TypeScript enum. Its members are the numbers 0, 1 and 2 in declaration order, and a
  value of the enum type is a number at run time, which is how the module uses it
  (\<open>getReceivedPacketProperty\<close> takes \<open>type: number\<close>, \<open>_packetProperty\<close> returns its
  \<open>PacketProperty\<close> argument as a \<open>number\<close>).
\<close>

type_synonym PacketProperty = int

definition Time :: PacketProperty where
  "Time = 0"

definition SerialNumber :: PacketProperty where
  "SerialNumber = 1"

definition SignalStrength :: PacketProperty where
  "SignalStrength = 2"

subsection \<open>The firmware hooks and the module state\<close>

text \<open>
  The native hooks (\<open>receiveNumber\<close>, \<open>receivedNumber\<close>, \<open>receivedTime\<close>,
  \<open>receivedSerial\<close>, \<open>receivedString\<close>, \<open>receivedBuffer\<close>,
  \<open>receivedSignalStrength\<close>) are declared outside radio.ts. They are a parameter of the
  model: each is an arbitrary function from the firmware state \<open>'n\<close> to a result and a
  new firmware state, so nothing is assumed about what a hook returns or changes.
\<close>

record 'n natives =
  native_receiveNumber :: "'n \<Rightarrow> int \<times> 'n"
  native_receivedNumber :: "'n \<Rightarrow> int \<times> 'n"
  native_receivedTime :: "'n \<Rightarrow> int \<times> 'n"
  native_receivedSerial :: "'n \<Rightarrow> int \<times> 'n"
  native_receivedString :: "'n \<Rightarrow> string \<times> 'n"
  native_receivedBuffer :: "'n \<Rightarrow> Buffer \<times> 'n"
  native_receivedSignalStrength :: "'n \<Rightarrow> int \<times> 'n"

datatype hook =
  ReceiveNumber | ReceivedNumber | ReceivedTime | ReceivedSerial
  | ReceivedString | ReceivedBuffer | ReceivedSignalStrength

datatype val = VNum int | VStr string | VBuf Buffer

text \<open>
  What a run does, in order: a call of a native hook with the value it returned, the
  assignment \<open>lastPacket = packet\<close>, the call of the user callback.
\<close>

datatype event = Native hook val | Store Packet | Callback

text \<open>
  The state a handler runs in: the firmware, the module variable
  \<open>let lastPacket: Packet\<close> (\<open>None\<close> until the first assignment), and the log of
  events so far, oldest first.
\<close>

record 'n radio_state =
  firmware :: 'n
  lastPacket :: "Packet option"
  events :: "event list"

text \<open>Calling a hook: run it on the firmware, log the call with its result.\<close>

definition native_call ::
  "hook \<Rightarrow> ('a \<Rightarrow> val) \<Rightarrow> ('n \<Rightarrow> 'a \<times> 'n) \<Rightarrow> 'n radio_state \<Rightarrow> 'a \<times> 'n radio_state" where
  "native_call h tag f s =
     (case f (firmware s) of
        (v, fw) \<Rightarrow> (v, s\<lparr>firmware := fw, events := events s @ [Native h (tag v)]\<rparr>))"

text \<open>\<open>lastPacket = packet;\<close>\<close>

definition store_lastPacket :: "Packet \<Rightarrow> 'n radio_state \<Rightarrow> 'n radio_state" where
  "store_lastPacket packet s =
     s\<lparr>lastPacket := Some packet, events := events s @ [Store packet]\<rparr>"

text \<open>The state in which the user callback starts: the call is logged.\<close>

definition enter_callback :: "'n radio_state \<Rightarrow> 'n radio_state" where
  "enter_callback s = s\<lparr>events := events s @ [Callback]\<rparr>"

subsection \<open>Property queries\<close>

text \<open>
  \<^verbatim>\<open>
  export function getReceivedPacketProperty(type: number) {
      if (lastPacket) {
          switch(type) {
              case PacketProperty.Time: return lastPacket.time;
              case PacketProperty.SerialNumber: return lastPacket.serial;
              case PacketProperty.SignalStrength: return lastPacket.signal;
          }
      }
      return 0;
  }
  \<close>
  The result is what the \<open>return\<close> reads: a field of the retained record, or the
  number 0.
\<close>

definition getReceivedPacketProperty :: "'n radio_state \<Rightarrow> int \<Rightarrow> int option" where
  "getReceivedPacketProperty s type =
     (case lastPacket s of
        Some p \<Rightarrow>
          if type = Time then time p
          else if type = SerialNumber then serial p
          else if type = SignalStrength then signal p
          else Some 0
      | None \<Rightarrow> Some 0)"

text \<open>
  \<^verbatim>\<open>
  export function _packetProperty(type: PacketProperty): number {
      return type;
  }
  \<close>
  (An Isabelle name cannot start with an underscore.)
\<close>

definition packetProperty :: "PacketProperty \<Rightarrow> int" where
  "packetProperty type = type"

subsection \<open>Registration functions\<close>

text \<open>
  Each registration function passes a closure to the native \<open>onDataReceived\<close>, which
  keeps it as the handler of inbound-data events; the firmware runs it once per event.
  Registration is identified with the closure it registers: \<open>onReceivedNumber N cb\<close>
  is the state transformer that one invocation of the registered handler performs, with
  the hooks \<open>N\<close> and the user callback \<open>cb\<close>. A user callback is arbitrary code: it
  takes its arguments and the state it starts in, and returns the state it leaves.
\<close>

type_synonym 'n handler = "'n radio_state \<Rightarrow> 'n radio_state"

text \<open>
  \<^verbatim>\<open>
  export function onDataPacketReceived(cb: (packet: Packet) => void) {
      onDataReceived(() => {
          receiveNumber();
          const packet = new Packet();
          packet.receivedNumber = receivedNumber();
          packet.time = receivedTime();
          packet.serial = receivedSerial();
          packet.receivedString = receivedString();
          packet.receivedBuffer = receivedBuffer();
          packet.signal = receivedSignalStrength();
          lastPacket = packet;
          cb(packet)
      });
  }
  \<close>
\<close>

definition onDataPacketReceived :: "'n natives \<Rightarrow> (Packet \<Rightarrow> 'n handler) \<Rightarrow> 'n handler" where
  "onDataPacketReceived N cb s0 =
     (let (_, s1) = native_call ReceiveNumber VNum (native_receiveNumber N) s0;
          packet = new_Packet;
          (n, s2) = native_call ReceivedNumber VNum (native_receivedNumber N) s1;
          packet = packet\<lparr>receivedNumber := Some n\<rparr>;
          (t, s3) = native_call ReceivedTime VNum (native_receivedTime N) s2;
          packet = packet\<lparr>time := Some t\<rparr>;
          (sr, s4) = native_call ReceivedSerial VNum (native_receivedSerial N) s3;
          packet = packet\<lparr>serial := Some sr\<rparr>;
          (str, s5) = native_call ReceivedString VStr (native_receivedString N) s4;
          packet = packet\<lparr>receivedString := Some str\<rparr>;
          (b, s6) = native_call ReceivedBuffer VBuf (native_receivedBuffer N) s5;
          packet = packet\<lparr>receivedBuffer := Some b\<rparr>;
          (sg, s7) = native_call ReceivedSignalStrength VNum (native_receivedSignalStrength N) s6;
          packet = packet\<lparr>signal := Some sg\<rparr>;
          s8 = store_lastPacket packet s7
      in cb packet (enter_callback s8))"

text \<open>
  \<^verbatim>\<open>
  export function onReceivedNumber(cb: (receivedNumber: number) => void) {
      onDataReceived(() => {
          receiveNumber();
          const packet = new Packet();
          packet.time = receivedTime();
          packet.serial = receivedSerial();
          packet.signal = receivedSignalStrength();
          packet.receivedNumber = receivedNumber();
          lastPacket = packet;
          cb(packet.receivedNumber);
      });
  }
  \<close>
\<close>

definition onReceivedNumber :: "'n natives \<Rightarrow> (int option \<Rightarrow> 'n handler) \<Rightarrow> 'n handler" where
  "onReceivedNumber N cb s0 =
     (let (_, s1) = native_call ReceiveNumber VNum (native_receiveNumber N) s0;
          packet = new_Packet;
          (t, s2) = native_call ReceivedTime VNum (native_receivedTime N) s1;
          packet = packet\<lparr>time := Some t\<rparr>;
          (sr, s3) = native_call ReceivedSerial VNum (native_receivedSerial N) s2;
          packet = packet\<lparr>serial := Some sr\<rparr>;
          (sg, s4) = native_call ReceivedSignalStrength VNum (native_receivedSignalStrength N) s3;
          packet = packet\<lparr>signal := Some sg\<rparr>;
          (n, s5) = native_call ReceivedNumber VNum (native_receivedNumber N) s4;
          packet = packet\<lparr>receivedNumber := Some n\<rparr>;
          s6 = store_lastPacket packet s5
      in cb (receivedNumber packet) (enter_callback s6))"

text \<open>
  \<^verbatim>\<open>
  export function onReceivedValue(cb: (name: string, value: number) => void) {
      onDataReceived(() => {
          receiveNumber();
          const packet = new Packet();
          packet.time = receivedTime();
          packet.serial = receivedSerial();
          packet.signal = receivedSignalStrength();
          packet.receivedNumber = receivedNumber();
          packet.receivedString = receivedString();
          lastPacket = packet;
          cb(packet.receivedString, packet.receivedNumber)
      });
  }
  \<close>
\<close>

definition onReceivedValue ::
  "'n natives \<Rightarrow> (string option \<Rightarrow> int option \<Rightarrow> 'n handler) \<Rightarrow> 'n handler" where
  "onReceivedValue N cb s0 =
     (let (_, s1) = native_call ReceiveNumber VNum (native_receiveNumber N) s0;
          packet = new_Packet;
          (t, s2) = native_call ReceivedTime VNum (native_receivedTime N) s1;
          packet = packet\<lparr>time := Some t\<rparr>;
          (sr, s3) = native_call ReceivedSerial VNum (native_receivedSerial N) s2;
          packet = packet\<lparr>serial := Some sr\<rparr>;
          (sg, s4) = native_call ReceivedSignalStrength VNum (native_receivedSignalStrength N) s3;
          packet = packet\<lparr>signal := Some sg\<rparr>;
          (n, s5) = native_call ReceivedNumber VNum (native_receivedNumber N) s4;
          packet = packet\<lparr>receivedNumber := Some n\<rparr>;
          (str, s6) = native_call ReceivedString VStr (native_receivedString N) s5;
          packet = packet\<lparr>receivedString := Some str\<rparr>;
          s7 = store_lastPacket packet s6
      in cb (receivedString packet) (receivedNumber packet) (enter_callback s7))"

text \<open>
  \<^verbatim>\<open>
  export function onReceivedString(cb: (receivedString: string) => void) {
      onDataReceived(() => {
          receiveNumber();
          const packet = new Packet();
          packet.time = receivedTime();
          packet.serial = receivedSerial();
          packet.signal = receivedSignalStrength();
          packet.receivedString = receivedString();
          lastPacket = packet;
          cb(packet.receivedString);
      });
  }
  \<close>
\<close>

definition onReceivedString :: "'n natives \<Rightarrow> (string option \<Rightarrow> 'n handler) \<Rightarrow> 'n handler" where
  "onReceivedString N cb s0 =
     (let (_, s1) = native_call ReceiveNumber VNum (native_receiveNumber N) s0;
          packet = new_Packet;
          (t, s2) = native_call ReceivedTime VNum (native_receivedTime N) s1;
          packet = packet\<lparr>time := Some t\<rparr>;
          (sr, s3) = native_call ReceivedSerial VNum (native_receivedSerial N) s2;
          packet = packet\<lparr>serial := Some sr\<rparr>;
          (sg, s4) = native_call ReceivedSignalStrength VNum (native_receivedSignalStrength N) s3;
          packet = packet\<lparr>signal := Some sg\<rparr>;
          (str, s5) = native_call ReceivedString VStr (native_receivedString N) s4;
          packet = packet\<lparr>receivedString := Some str\<rparr>;
          s6 = store_lastPacket packet s5
      in cb (receivedString packet) (enter_callback s6))"

text \<open>
  \<^verbatim>\<open>
  export function onReceivedBuffer(cb: (buffer: Buffer) => void) {
      onDataReceived(() => {
          receiveNumber();
          const packet = new Packet();
          packet.time = receivedTime();
          packet.serial = receivedSerial();
          packet.signal = receivedSignalStrength();
          packet.receivedBuffer = receivedBuffer();
          lastPacket = packet;
          cb(packet.receivedBuffer)
      });
  }
  \<close>
\<close>

definition onReceivedBuffer :: "'n natives \<Rightarrow> (Buffer option \<Rightarrow> 'n handler) \<Rightarrow> 'n handler" where
  "onReceivedBuffer N cb s0 =
     (let (_, s1) = native_call ReceiveNumber VNum (native_receiveNumber N) s0;
          packet = new_Packet;
          (t, s2) = native_call ReceivedTime VNum (native_receivedTime N) s1;
          packet = packet\<lparr>time := Some t\<rparr>;
          (sr, s3) = native_call ReceivedSerial VNum (native_receivedSerial N) s2;
          packet = packet\<lparr>serial := Some sr\<rparr>;
          (sg, s4) = native_call ReceivedSignalStrength VNum (native_receivedSignalStrength N) s3;
          packet = packet\<lparr>signal := Some sg\<rparr>;
          (b, s5) = native_call ReceivedBuffer VBuf (native_receivedBuffer N) s4;
          packet = packet\<lparr>receivedBuffer := Some b\<rparr>;
          s6 = store_lastPacket packet s5
      in cb (receivedBuffer packet) (enter_callback s6))"

subsection \<open>Reading the event log\<close>

text \<open>How many times a log calls hook \<open>h\<close>.\<close>

fun calls :: "hook \<Rightarrow> event list \<Rightarrow> nat" where
  "calls h [] = 0"
| "calls h (Native h' v # es) = (if h' = h then Suc (calls h es) else calls h es)"
| "calls h (Store p # es) = calls h es"
| "calls h (Callback # es) = calls h es"

subsection \<open>A stand-in firmware for concrete runs\<close>

text \<open>
  Modelled from the spec: the firmware behind the native hooks is not part of radio.ts.
  The spec names "accessors for received number, time, serial, string, buffer, and signal
  strength", and the source says of a handler that it "also takes the received packet
  from the radio queue". The stand-in keeps a queue of frames and the frame taken last;
  \<open>receiveNumber\<close> takes the next frame from the queue and returns its number, the
  accessors read the frame taken last. It serves only to run the handlers on concrete
  inputs: every general theorem below holds for all hooks.
\<close>

record frame =
  frame_number :: int
  frame_string :: string
  frame_buffer :: Buffer
  frame_time :: int
  frame_serial :: int
  frame_rssi :: int

record radio_queue =
  pending :: "frame list"
  current :: frame

definition take_frame :: "radio_queue \<Rightarrow> int \<times> radio_queue" where
  "take_frame q =
     (case pending q of
        [] \<Rightarrow> (frame_number (current q), q)
      | x # xs \<Rightarrow> (frame_number x, \<lparr>pending = xs, current = x\<rparr>))"

definition read_current :: "(frame \<Rightarrow> 'a) \<Rightarrow> radio_queue \<Rightarrow> 'a \<times> radio_queue" where
  "read_current field q = (field (current q), q)"

definition queue_natives :: "radio_queue natives" where
  "queue_natives =
     \<lparr>native_receiveNumber = take_frame,
      native_receivedNumber = read_current frame_number,
      native_receivedTime = read_current frame_time,
      native_receivedSerial = read_current frame_serial,
      native_receivedString = read_current frame_string,
      native_receivedBuffer = read_current frame_buffer,
      native_receivedSignalStrength = read_current frame_rssi\<rparr>"

text \<open>A frame as \<open>sendNumber(42)\<close> produces it: a number, no string, no buffer.\<close>

definition number_frame :: frame where
  "number_frame =
     \<lparr>frame_number = 42, frame_string = [], frame_buffer = [],
      frame_time = 1000, frame_serial = 7, frame_rssi = - 60\<rparr>"

definition no_frame :: frame where
  "no_frame =
     \<lparr>frame_number = 0, frame_string = [], frame_buffer = [],
      frame_time = 0, frame_serial = 0, frame_rssi = 0\<rparr>"

text \<open>The module right after start: nothing received yet, one frame waiting.\<close>

definition boot :: "radio_queue radio_state" where
  "boot =
     \<lparr>firmware = \<lparr>pending = [number_frame], current = no_frame\<rparr>,
      lastPacket = None, events = []\<rparr>"

text \<open>A user callback that does nothing.\<close>

definition ignore :: "'a \<Rightarrow> 'n handler" where
  "ignore x s = s"

text \<open>A frame as \<open>sendValue("temp", 5)\<close> could produce it, given a buffer as well so that
  the three payloads differ from one another and from the defaults.\<close>

definition value_frame :: frame where
  "value_frame =
     \<lparr>frame_number = 5, frame_string = ''temp'', frame_buffer = [1, 2, 3],
      frame_time = 2000, frame_serial = 9, frame_rssi = - 42\<rparr>"

text \<open>Two frames waiting, nothing received yet.\<close>

definition busy :: "radio_queue radio_state" where
  "busy =
     \<lparr>firmware = \<lparr>pending = [value_frame, number_frame], current = no_frame\<rparr>,
      lastPacket = None, events = []\<rparr>"

section \<open>Properties\<close>

subsection \<open>The record type\<close>

text \<open>A \<open>Packet\<close> is its six fields and nothing more: the record and the six-tuple of
  its field contents determine each other.\<close>

lemma Packet_six_fields:
  "bij (\<lambda>p::Packet.
     (receivedNumber p, receivedString p, receivedBuffer p, time p, serial p, signal p))"
proof (rule bijI)
  show "inj (\<lambda>p::Packet.
     (receivedNumber p, receivedString p, receivedBuffer p, time p, serial p, signal p))"
    by (rule injI) simp
next
  show "surj (\<lambda>p::Packet.
     (receivedNumber p, receivedString p, receivedBuffer p, time p, serial p, signal p))"
    by (rule surjI [where f = "\<lambda>(n, str, b, t, sr, sg).
        \<lparr>receivedNumber = n, receivedString = str, receivedBuffer = b,
         time = t, serial = sr, signal = sg\<rparr>"])
      auto
qed

subsection \<open>Property queries\<close>

text \<open>
  C1. While no packet has been received, that is while \<open>lastPacket\<close> is still
  unassigned, \<open>getReceivedPacketProperty(type)\<close> returns 0, whatever \<open>type\<close> is.
\<close>

theorem getReceivedPacketProperty_no_packet:
  "lastPacket s = None \<Longrightarrow> getReceivedPacketProperty s type = Some 0"
  by (simp add: getReceivedPacketProperty_def)

text \<open>
  C2. Once a packet has been received, that is once \<open>lastPacket\<close> holds a record,
  \<open>getReceivedPacketProperty\<close> returns that record's \<open>time\<close> field for
  \<open>PacketProperty.Time\<close>, its \<open>serial\<close> field for \<open>PacketProperty.SerialNumber\<close>
  and its \<open>signal\<close> field for \<open>PacketProperty.SignalStrength\<close>.
\<close>

theorem getReceivedPacketProperty_reads_fields:
  "lastPacket s = Some p \<Longrightarrow>
     getReceivedPacketProperty s Time = time p \<and>
     getReceivedPacketProperty s SerialNumber = serial p \<and>
     getReceivedPacketProperty s SignalStrength = signal p"
  by (simp add: getReceivedPacketProperty_def Time_def SerialNumber_def SignalStrength_def)

text \<open>
  C7. For a number \<open>type\<close> that is none of the three enum members,
  \<open>getReceivedPacketProperty(type)\<close> returns 0 in every state, also when
  \<open>lastPacket\<close> holds a record.
\<close>

theorem getReceivedPacketProperty_other_type:
  "type \<noteq> Time \<Longrightarrow> type \<noteq> SerialNumber \<Longrightarrow> type \<noteq> SignalStrength \<Longrightarrow>
     getReceivedPacketProperty s type = Some 0"
  by (simp add: getReceivedPacketProperty_def split: option.split)

text \<open>
  C8. \<open>_packetProperty(type)\<close> returns its argument unchanged: it is the identity on
  \<open>PacketProperty\<close> values.
\<close>

theorem packetProperty_identity:
  "packetProperty type = type"
  by (simp add: packetProperty_def)

subsection \<open>One invocation of a registered handler\<close>

text \<open>
  Symbolic execution of each handler: given what the hooks return, in the order the
  handler calls them and each on the firmware state the previous call left, the
  handler's result is the user callback applied to the stated arguments and state.
\<close>

lemmas run_defs =
  native_call_def store_lastPacket_def enter_callback_def new_Packet_def Let_def

lemma onDataPacketReceived_run:
  assumes "native_receiveNumber N (firmware s) = (r, f1)"
    and "native_receivedNumber N f1 = (n, f2)"
    and "native_receivedTime N f2 = (t, f3)"
    and "native_receivedSerial N f3 = (sr, f4)"
    and "native_receivedString N f4 = (str, f5)"
    and "native_receivedBuffer N f5 = (b, f6)"
    and "native_receivedSignalStrength N f6 = (sg, f7)"
  shows "onDataPacketReceived N cb s =
     cb \<lparr>receivedNumber = Some n, receivedString = Some str,
         receivedBuffer = Some b, time = Some t,
         serial = Some sr, signal = Some sg\<rparr>
       (s\<lparr>firmware := f7,
          lastPacket := Some \<lparr>receivedNumber = Some n, receivedString = Some str,
                           receivedBuffer = Some b, time = Some t,
                           serial = Some sr, signal = Some sg\<rparr>,
          events := events s @
            [Native ReceiveNumber (VNum r), Native ReceivedNumber (VNum n),
             Native ReceivedTime (VNum t), Native ReceivedSerial (VNum sr),
             Native ReceivedString (VStr str), Native ReceivedBuffer (VBuf b),
             Native ReceivedSignalStrength (VNum sg),
             Store \<lparr>receivedNumber = Some n, receivedString = Some str,
                    receivedBuffer = Some b, time = Some t,
                    serial = Some sr, signal = Some sg\<rparr>,
             Callback]\<rparr>)"
  unfolding onDataPacketReceived_def run_defs using assms by simp

lemma onReceivedNumber_run:
  assumes "native_receiveNumber N (firmware s) = (r, f1)"
    and "native_receivedTime N f1 = (t, f2)"
    and "native_receivedSerial N f2 = (sr, f3)"
    and "native_receivedSignalStrength N f3 = (sg, f4)"
    and "native_receivedNumber N f4 = (n, f5)"
  shows "onReceivedNumber N cb s =
     cb (Some n)
       (s\<lparr>firmware := f5,
          lastPacket := Some \<lparr>receivedNumber = Some n, receivedString = None,
                           receivedBuffer = None, time = Some t,
                           serial = Some sr, signal = Some sg\<rparr>,
          events := events s @
            [Native ReceiveNumber (VNum r), Native ReceivedTime (VNum t),
             Native ReceivedSerial (VNum sr), Native ReceivedSignalStrength (VNum sg),
             Native ReceivedNumber (VNum n),
             Store \<lparr>receivedNumber = Some n, receivedString = None,
                    receivedBuffer = None, time = Some t,
                    serial = Some sr, signal = Some sg\<rparr>,
             Callback]\<rparr>)"
  unfolding onReceivedNumber_def run_defs using assms by simp

lemma onReceivedValue_run:
  assumes "native_receiveNumber N (firmware s) = (r, f1)"
    and "native_receivedTime N f1 = (t, f2)"
    and "native_receivedSerial N f2 = (sr, f3)"
    and "native_receivedSignalStrength N f3 = (sg, f4)"
    and "native_receivedNumber N f4 = (n, f5)"
    and "native_receivedString N f5 = (str, f6)"
  shows "onReceivedValue N cb s =
     cb (Some str) (Some n)
       (s\<lparr>firmware := f6,
          lastPacket := Some \<lparr>receivedNumber = Some n, receivedString = Some str,
                           receivedBuffer = None, time = Some t,
                           serial = Some sr, signal = Some sg\<rparr>,
          events := events s @
            [Native ReceiveNumber (VNum r), Native ReceivedTime (VNum t),
             Native ReceivedSerial (VNum sr), Native ReceivedSignalStrength (VNum sg),
             Native ReceivedNumber (VNum n), Native ReceivedString (VStr str),
             Store \<lparr>receivedNumber = Some n, receivedString = Some str,
                    receivedBuffer = None, time = Some t,
                    serial = Some sr, signal = Some sg\<rparr>,
             Callback]\<rparr>)"
  unfolding onReceivedValue_def run_defs using assms by simp

lemma onReceivedString_run:
  assumes "native_receiveNumber N (firmware s) = (r, f1)"
    and "native_receivedTime N f1 = (t, f2)"
    and "native_receivedSerial N f2 = (sr, f3)"
    and "native_receivedSignalStrength N f3 = (sg, f4)"
    and "native_receivedString N f4 = (str, f5)"
  shows "onReceivedString N cb s =
     cb (Some str)
       (s\<lparr>firmware := f5,
          lastPacket := Some \<lparr>receivedNumber = None, receivedString = Some str,
                           receivedBuffer = None, time = Some t,
                           serial = Some sr, signal = Some sg\<rparr>,
          events := events s @
            [Native ReceiveNumber (VNum r), Native ReceivedTime (VNum t),
             Native ReceivedSerial (VNum sr), Native ReceivedSignalStrength (VNum sg),
             Native ReceivedString (VStr str),
             Store \<lparr>receivedNumber = None, receivedString = Some str,
                    receivedBuffer = None, time = Some t,
                    serial = Some sr, signal = Some sg\<rparr>,
             Callback]\<rparr>)"
  unfolding onReceivedString_def run_defs using assms by simp

lemma onReceivedBuffer_run:
  assumes "native_receiveNumber N (firmware s) = (r, f1)"
    and "native_receivedTime N f1 = (t, f2)"
    and "native_receivedSerial N f2 = (sr, f3)"
    and "native_receivedSignalStrength N f3 = (sg, f4)"
    and "native_receivedBuffer N f4 = (b, f5)"
  shows "onReceivedBuffer N cb s =
     cb (Some b)
       (s\<lparr>firmware := f5,
          lastPacket := Some \<lparr>receivedNumber = None, receivedString = None,
                           receivedBuffer = Some b, time = Some t,
                           serial = Some sr, signal = Some sg\<rparr>,
          events := events s @
            [Native ReceiveNumber (VNum r), Native ReceivedTime (VNum t),
             Native ReceivedSerial (VNum sr), Native ReceivedSignalStrength (VNum sg),
             Native ReceivedBuffer (VBuf b),
             Store \<lparr>receivedNumber = None, receivedString = None,
                    receivedBuffer = Some b, time = Some t,
                    serial = Some sr, signal = Some sg\<rparr>,
             Callback]\<rparr>)"
  unfolding onReceivedBuffer_def run_defs using assms by simp

text \<open>
  In the three theorems below the results of the hooks are named: \<open>r\<close> and \<open>f1\<close> are
  what \<open>receiveNumber()\<close> returns and the firmware state it leaves when called on the
  firmware of the state \<open>s\<close> the invocation starts in; each accessor is then called on
  the firmware state the previous call left, and \<open>n\<close>, \<open>t\<close>, \<open>sr\<close>, \<open>str\<close>, \<open>b\<close>,
  \<open>sg\<close> are what \<open>receivedNumber()\<close>, \<open>receivedTime()\<close>, \<open>receivedSerial()\<close>,
  \<open>receivedString()\<close>, \<open>receivedBuffer()\<close>, \<open>receivedSignalStrength()\<close> return there.
  The state \<open>pre\<close> is the one the user callback starts in; the handler does nothing
  after the callback returns.
\<close>

text \<open>
  C3. For each of the five registration functions, one invocation of the registered
  handler builds a new record from what the native accessors return (a field the
  handler reads no accessor for stays unassigned), assigns it to \<open>lastPacket\<close>, and only
  then calls the user callback: in the state the callback starts in, \<open>lastPacket\<close>
  already holds the new record, and the invocation's log is the hook calls, then the
  store, then the callback.
\<close>

theorem handlers_store_before_callback:
  "(\<forall>r f1 n f2 t f3 sr f4 str f5 b f6 sg f7.
     native_receiveNumber N (firmware s) = (r, f1) \<longrightarrow>
     native_receivedNumber N f1 = (n, f2) \<longrightarrow>
     native_receivedTime N f2 = (t, f3) \<longrightarrow>
     native_receivedSerial N f3 = (sr, f4) \<longrightarrow>
     native_receivedString N f4 = (str, f5) \<longrightarrow>
     native_receivedBuffer N f5 = (b, f6) \<longrightarrow>
     native_receivedSignalStrength N f6 = (sg, f7) \<longrightarrow>
     (\<exists>pre.
       (\<forall>cb. onDataPacketReceived N cb s =
          cb \<lparr>receivedNumber = Some n, receivedString = Some str,
              receivedBuffer = Some b, time = Some t,
              serial = Some sr, signal = Some sg\<rparr> pre) \<and>
       lastPacket pre = Some \<lparr>receivedNumber = Some n, receivedString = Some str,
                              receivedBuffer = Some b, time = Some t,
                              serial = Some sr, signal = Some sg\<rparr> \<and>
       events pre = events s @
         [Native ReceiveNumber (VNum r), Native ReceivedNumber (VNum n),
          Native ReceivedTime (VNum t), Native ReceivedSerial (VNum sr),
          Native ReceivedString (VStr str), Native ReceivedBuffer (VBuf b),
          Native ReceivedSignalStrength (VNum sg)] @
         [Store \<lparr>receivedNumber = Some n, receivedString = Some str,
                 receivedBuffer = Some b, time = Some t,
                 serial = Some sr, signal = Some sg\<rparr>,
          Callback])) \<and>
   (\<forall>r f1 t f2 sr f3 sg f4 n f5.
     native_receiveNumber N (firmware s) = (r, f1) \<longrightarrow>
     native_receivedTime N f1 = (t, f2) \<longrightarrow>
     native_receivedSerial N f2 = (sr, f3) \<longrightarrow>
     native_receivedSignalStrength N f3 = (sg, f4) \<longrightarrow>
     native_receivedNumber N f4 = (n, f5) \<longrightarrow>
     (\<exists>pre.
       (\<forall>cb. onReceivedNumber N cb s =
          cb (Some n) pre) \<and>
       lastPacket pre = Some \<lparr>receivedNumber = Some n, receivedString = None,
                              receivedBuffer = None, time = Some t,
                              serial = Some sr, signal = Some sg\<rparr> \<and>
       events pre = events s @
         [Native ReceiveNumber (VNum r), Native ReceivedTime (VNum t),
          Native ReceivedSerial (VNum sr), Native ReceivedSignalStrength (VNum sg),
          Native ReceivedNumber (VNum n)] @
         [Store \<lparr>receivedNumber = Some n, receivedString = None,
                 receivedBuffer = None, time = Some t,
                 serial = Some sr, signal = Some sg\<rparr>,
          Callback])) \<and>
   (\<forall>r f1 t f2 sr f3 sg f4 n f5 str f6.
     native_receiveNumber N (firmware s) = (r, f1) \<longrightarrow>
     native_receivedTime N f1 = (t, f2) \<longrightarrow>
     native_receivedSerial N f2 = (sr, f3) \<longrightarrow>
     native_receivedSignalStrength N f3 = (sg, f4) \<longrightarrow>
     native_receivedNumber N f4 = (n, f5) \<longrightarrow>
     native_receivedString N f5 = (str, f6) \<longrightarrow>
     (\<exists>pre.
       (\<forall>cb. onReceivedValue N cb s =
          cb (Some str) (Some n) pre) \<and>
       lastPacket pre = Some \<lparr>receivedNumber = Some n, receivedString = Some str,
                              receivedBuffer = None, time = Some t,
                              serial = Some sr, signal = Some sg\<rparr> \<and>
       events pre = events s @
         [Native ReceiveNumber (VNum r), Native ReceivedTime (VNum t),
          Native ReceivedSerial (VNum sr), Native ReceivedSignalStrength (VNum sg),
          Native ReceivedNumber (VNum n), Native ReceivedString (VStr str)] @
         [Store \<lparr>receivedNumber = Some n, receivedString = Some str,
                 receivedBuffer = None, time = Some t,
                 serial = Some sr, signal = Some sg\<rparr>,
          Callback])) \<and>
   (\<forall>r f1 t f2 sr f3 sg f4 str f5.
     native_receiveNumber N (firmware s) = (r, f1) \<longrightarrow>
     native_receivedTime N f1 = (t, f2) \<longrightarrow>
     native_receivedSerial N f2 = (sr, f3) \<longrightarrow>
     native_receivedSignalStrength N f3 = (sg, f4) \<longrightarrow>
     native_receivedString N f4 = (str, f5) \<longrightarrow>
     (\<exists>pre.
       (\<forall>cb. onReceivedString N cb s =
          cb (Some str) pre) \<and>
       lastPacket pre = Some \<lparr>receivedNumber = None, receivedString = Some str,
                              receivedBuffer = None, time = Some t,
                              serial = Some sr, signal = Some sg\<rparr> \<and>
       events pre = events s @
         [Native ReceiveNumber (VNum r), Native ReceivedTime (VNum t),
          Native ReceivedSerial (VNum sr), Native ReceivedSignalStrength (VNum sg),
          Native ReceivedString (VStr str)] @
         [Store \<lparr>receivedNumber = None, receivedString = Some str,
                 receivedBuffer = None, time = Some t,
                 serial = Some sr, signal = Some sg\<rparr>,
          Callback])) \<and>
   (\<forall>r f1 t f2 sr f3 sg f4 b f5.
     native_receiveNumber N (firmware s) = (r, f1) \<longrightarrow>
     native_receivedTime N f1 = (t, f2) \<longrightarrow>
     native_receivedSerial N f2 = (sr, f3) \<longrightarrow>
     native_receivedSignalStrength N f3 = (sg, f4) \<longrightarrow>
     native_receivedBuffer N f4 = (b, f5) \<longrightarrow>
     (\<exists>pre.
       (\<forall>cb. onReceivedBuffer N cb s =
          cb (Some b) pre) \<and>
       lastPacket pre = Some \<lparr>receivedNumber = None, receivedString = None,
                              receivedBuffer = Some b, time = Some t,
                              serial = Some sr, signal = Some sg\<rparr> \<and>
       events pre = events s @
         [Native ReceiveNumber (VNum r), Native ReceivedTime (VNum t),
          Native ReceivedSerial (VNum sr), Native ReceivedSignalStrength (VNum sg),
          Native ReceivedBuffer (VBuf b)] @
         [Store \<lparr>receivedNumber = None, receivedString = None,
                 receivedBuffer = Some b, time = Some t,
                 serial = Some sr, signal = Some sg\<rparr>,
          Callback]))"
  (is "?DP \<and> ?NUM \<and> ?VAL \<and> ?STR \<and> ?BUF")
proof (intro conjI)
  show ?DP
  proof (intro allI impI)
    fix r f1 n f2 t f3 sr f4 str f5 b f6 sg f7
    assume 1: "native_receiveNumber N (firmware s) = (r, f1)"
      and 2: "native_receivedNumber N f1 = (n, f2)"
      and 3: "native_receivedTime N f2 = (t, f3)"
      and 4: "native_receivedSerial N f3 = (sr, f4)"
      and 5: "native_receivedString N f4 = (str, f5)"
      and 6: "native_receivedBuffer N f5 = (b, f6)"
      and 7: "native_receivedSignalStrength N f6 = (sg, f7)"
    note run = onDataPacketReceived_run [OF 1 2 3 4 5 6 7]
    let ?pre = "s\<lparr>firmware := f7,
                lastPacket := Some \<lparr>receivedNumber = Some n, receivedString = Some str,
                                 receivedBuffer = Some b, time = Some t,
                                 serial = Some sr, signal = Some sg\<rparr>,
                events := events s @
                  [Native ReceiveNumber (VNum r), Native ReceivedNumber (VNum n),
                   Native ReceivedTime (VNum t), Native ReceivedSerial (VNum sr),
                   Native ReceivedString (VStr str), Native ReceivedBuffer (VBuf b),
                   Native ReceivedSignalStrength (VNum sg),
                   Store \<lparr>receivedNumber = Some n, receivedString = Some str,
                          receivedBuffer = Some b, time = Some t,
                          serial = Some sr, signal = Some sg\<rparr>,
                   Callback]\<rparr>"
    show "\<exists>pre.
          (\<forall>cb. onDataPacketReceived N cb s =
             cb \<lparr>receivedNumber = Some n, receivedString = Some str,
                 receivedBuffer = Some b, time = Some t,
                 serial = Some sr, signal = Some sg\<rparr> pre) \<and>
          lastPacket pre = Some \<lparr>receivedNumber = Some n, receivedString = Some str,
                                 receivedBuffer = Some b, time = Some t,
                                 serial = Some sr, signal = Some sg\<rparr> \<and>
          events pre = events s @
            [Native ReceiveNumber (VNum r), Native ReceivedNumber (VNum n),
             Native ReceivedTime (VNum t), Native ReceivedSerial (VNum sr),
             Native ReceivedString (VStr str), Native ReceivedBuffer (VBuf b),
             Native ReceivedSignalStrength (VNum sg)] @
            [Store \<lparr>receivedNumber = Some n, receivedString = Some str,
                    receivedBuffer = Some b, time = Some t,
                    serial = Some sr, signal = Some sg\<rparr>,
             Callback]"
      by (rule exI [of _ ?pre]) (simp add: run)
  qed
next
  show ?NUM
  proof (intro allI impI)
    fix r f1 t f2 sr f3 sg f4 n f5
    assume 1: "native_receiveNumber N (firmware s) = (r, f1)"
      and 2: "native_receivedTime N f1 = (t, f2)"
      and 3: "native_receivedSerial N f2 = (sr, f3)"
      and 4: "native_receivedSignalStrength N f3 = (sg, f4)"
      and 5: "native_receivedNumber N f4 = (n, f5)"
    note run = onReceivedNumber_run [OF 1 2 3 4 5]
    let ?pre = "s\<lparr>firmware := f5,
                lastPacket := Some \<lparr>receivedNumber = Some n, receivedString = None,
                                 receivedBuffer = None, time = Some t,
                                 serial = Some sr, signal = Some sg\<rparr>,
                events := events s @
                  [Native ReceiveNumber (VNum r), Native ReceivedTime (VNum t),
                   Native ReceivedSerial (VNum sr), Native ReceivedSignalStrength (VNum sg),
                   Native ReceivedNumber (VNum n),
                   Store \<lparr>receivedNumber = Some n, receivedString = None,
                          receivedBuffer = None, time = Some t,
                          serial = Some sr, signal = Some sg\<rparr>,
                   Callback]\<rparr>"
    show "\<exists>pre.
          (\<forall>cb. onReceivedNumber N cb s =
             cb (Some n) pre) \<and>
          lastPacket pre = Some \<lparr>receivedNumber = Some n, receivedString = None,
                                 receivedBuffer = None, time = Some t,
                                 serial = Some sr, signal = Some sg\<rparr> \<and>
          events pre = events s @
            [Native ReceiveNumber (VNum r), Native ReceivedTime (VNum t),
             Native ReceivedSerial (VNum sr), Native ReceivedSignalStrength (VNum sg),
             Native ReceivedNumber (VNum n)] @
            [Store \<lparr>receivedNumber = Some n, receivedString = None,
                    receivedBuffer = None, time = Some t,
                    serial = Some sr, signal = Some sg\<rparr>,
             Callback]"
      by (rule exI [of _ ?pre]) (simp add: run)
  qed
next
  show ?VAL
  proof (intro allI impI)
    fix r f1 t f2 sr f3 sg f4 n f5 str f6
    assume 1: "native_receiveNumber N (firmware s) = (r, f1)"
      and 2: "native_receivedTime N f1 = (t, f2)"
      and 3: "native_receivedSerial N f2 = (sr, f3)"
      and 4: "native_receivedSignalStrength N f3 = (sg, f4)"
      and 5: "native_receivedNumber N f4 = (n, f5)"
      and 6: "native_receivedString N f5 = (str, f6)"
    note run = onReceivedValue_run [OF 1 2 3 4 5 6]
    let ?pre = "s\<lparr>firmware := f6,
                lastPacket := Some \<lparr>receivedNumber = Some n, receivedString = Some str,
                                 receivedBuffer = None, time = Some t,
                                 serial = Some sr, signal = Some sg\<rparr>,
                events := events s @
                  [Native ReceiveNumber (VNum r), Native ReceivedTime (VNum t),
                   Native ReceivedSerial (VNum sr), Native ReceivedSignalStrength (VNum sg),
                   Native ReceivedNumber (VNum n), Native ReceivedString (VStr str),
                   Store \<lparr>receivedNumber = Some n, receivedString = Some str,
                          receivedBuffer = None, time = Some t,
                          serial = Some sr, signal = Some sg\<rparr>,
                   Callback]\<rparr>"
    show "\<exists>pre.
          (\<forall>cb. onReceivedValue N cb s =
             cb (Some str) (Some n) pre) \<and>
          lastPacket pre = Some \<lparr>receivedNumber = Some n, receivedString = Some str,
                                 receivedBuffer = None, time = Some t,
                                 serial = Some sr, signal = Some sg\<rparr> \<and>
          events pre = events s @
            [Native ReceiveNumber (VNum r), Native ReceivedTime (VNum t),
             Native ReceivedSerial (VNum sr), Native ReceivedSignalStrength (VNum sg),
             Native ReceivedNumber (VNum n), Native ReceivedString (VStr str)] @
            [Store \<lparr>receivedNumber = Some n, receivedString = Some str,
                    receivedBuffer = None, time = Some t,
                    serial = Some sr, signal = Some sg\<rparr>,
             Callback]"
      by (rule exI [of _ ?pre]) (simp add: run)
  qed
next
  show ?STR
  proof (intro allI impI)
    fix r f1 t f2 sr f3 sg f4 str f5
    assume 1: "native_receiveNumber N (firmware s) = (r, f1)"
      and 2: "native_receivedTime N f1 = (t, f2)"
      and 3: "native_receivedSerial N f2 = (sr, f3)"
      and 4: "native_receivedSignalStrength N f3 = (sg, f4)"
      and 5: "native_receivedString N f4 = (str, f5)"
    note run = onReceivedString_run [OF 1 2 3 4 5]
    let ?pre = "s\<lparr>firmware := f5,
                lastPacket := Some \<lparr>receivedNumber = None, receivedString = Some str,
                                 receivedBuffer = None, time = Some t,
                                 serial = Some sr, signal = Some sg\<rparr>,
                events := events s @
                  [Native ReceiveNumber (VNum r), Native ReceivedTime (VNum t),
                   Native ReceivedSerial (VNum sr), Native ReceivedSignalStrength (VNum sg),
                   Native ReceivedString (VStr str),
                   Store \<lparr>receivedNumber = None, receivedString = Some str,
                          receivedBuffer = None, time = Some t,
                          serial = Some sr, signal = Some sg\<rparr>,
                   Callback]\<rparr>"
    show "\<exists>pre.
          (\<forall>cb. onReceivedString N cb s =
             cb (Some str) pre) \<and>
          lastPacket pre = Some \<lparr>receivedNumber = None, receivedString = Some str,
                                 receivedBuffer = None, time = Some t,
                                 serial = Some sr, signal = Some sg\<rparr> \<and>
          events pre = events s @
            [Native ReceiveNumber (VNum r), Native ReceivedTime (VNum t),
             Native ReceivedSerial (VNum sr), Native ReceivedSignalStrength (VNum sg),
             Native ReceivedString (VStr str)] @
            [Store \<lparr>receivedNumber = None, receivedString = Some str,
                    receivedBuffer = None, time = Some t,
                    serial = Some sr, signal = Some sg\<rparr>,
             Callback]"
      by (rule exI [of _ ?pre]) (simp add: run)
  qed
next
  show ?BUF
  proof (intro allI impI)
    fix r f1 t f2 sr f3 sg f4 b f5
    assume 1: "native_receiveNumber N (firmware s) = (r, f1)"
      and 2: "native_receivedTime N f1 = (t, f2)"
      and 3: "native_receivedSerial N f2 = (sr, f3)"
      and 4: "native_receivedSignalStrength N f3 = (sg, f4)"
      and 5: "native_receivedBuffer N f4 = (b, f5)"
    note run = onReceivedBuffer_run [OF 1 2 3 4 5]
    let ?pre = "s\<lparr>firmware := f5,
                lastPacket := Some \<lparr>receivedNumber = None, receivedString = None,
                                 receivedBuffer = Some b, time = Some t,
                                 serial = Some sr, signal = Some sg\<rparr>,
                events := events s @
                  [Native ReceiveNumber (VNum r), Native ReceivedTime (VNum t),
                   Native ReceivedSerial (VNum sr), Native ReceivedSignalStrength (VNum sg),
                   Native ReceivedBuffer (VBuf b),
                   Store \<lparr>receivedNumber = None, receivedString = None,
                          receivedBuffer = Some b, time = Some t,
                          serial = Some sr, signal = Some sg\<rparr>,
                   Callback]\<rparr>"
    show "\<exists>pre.
          (\<forall>cb. onReceivedBuffer N cb s =
             cb (Some b) pre) \<and>
          lastPacket pre = Some \<lparr>receivedNumber = None, receivedString = None,
                                 receivedBuffer = Some b, time = Some t,
                                 serial = Some sr, signal = Some sg\<rparr> \<and>
          events pre = events s @
            [Native ReceiveNumber (VNum r), Native ReceivedTime (VNum t),
             Native ReceivedSerial (VNum sr), Native ReceivedSignalStrength (VNum sg),
             Native ReceivedBuffer (VBuf b)] @
            [Store \<lparr>receivedNumber = None, receivedString = None,
                    receivedBuffer = Some b, time = Some t,
                    serial = Some sr, signal = Some sg\<rparr>,
             Callback]"
      by (rule exI [of _ ?pre]) (simp add: run)
  qed
qed

text \<open>
  C5. The user callback receives the values the native accessors returned in this
  invocation, unmodified: \<open>onDataPacketReceived\<close>'s callback the record of the six
  accessor results, \<open>onReceivedNumber\<close>'s the result of \<open>receivedNumber()\<close>,
  \<open>onReceivedValue\<close>'s the results of \<open>receivedString()\<close> and \<open>receivedNumber()\<close>,
  \<open>onReceivedString\<close>'s the result of \<open>receivedString()\<close>, \<open>onReceivedBuffer\<close>'s the
  result of \<open>receivedBuffer()\<close>; the firmware the callback starts on is the one the
  handler's last hook call left.
\<close>

theorem callbacks_receive_accessor_values:
  "(\<forall>r f1 n f2 t f3 sr f4 str f5 b f6 sg f7.
     native_receiveNumber N (firmware s) = (r, f1) \<longrightarrow>
     native_receivedNumber N f1 = (n, f2) \<longrightarrow>
     native_receivedTime N f2 = (t, f3) \<longrightarrow>
     native_receivedSerial N f3 = (sr, f4) \<longrightarrow>
     native_receivedString N f4 = (str, f5) \<longrightarrow>
     native_receivedBuffer N f5 = (b, f6) \<longrightarrow>
     native_receivedSignalStrength N f6 = (sg, f7) \<longrightarrow>
     (\<exists>pre.
       (\<forall>cb. onDataPacketReceived N cb s =
          cb \<lparr>receivedNumber = Some n, receivedString = Some str,
              receivedBuffer = Some b, time = Some t,
              serial = Some sr, signal = Some sg\<rparr> pre) \<and>
       firmware pre = f7)) \<and>
   (\<forall>r f1 t f2 sr f3 sg f4 n f5.
     native_receiveNumber N (firmware s) = (r, f1) \<longrightarrow>
     native_receivedTime N f1 = (t, f2) \<longrightarrow>
     native_receivedSerial N f2 = (sr, f3) \<longrightarrow>
     native_receivedSignalStrength N f3 = (sg, f4) \<longrightarrow>
     native_receivedNumber N f4 = (n, f5) \<longrightarrow>
     (\<exists>pre.
       (\<forall>cb. onReceivedNumber N cb s =
          cb (Some n) pre) \<and>
       firmware pre = f5)) \<and>
   (\<forall>r f1 t f2 sr f3 sg f4 n f5 str f6.
     native_receiveNumber N (firmware s) = (r, f1) \<longrightarrow>
     native_receivedTime N f1 = (t, f2) \<longrightarrow>
     native_receivedSerial N f2 = (sr, f3) \<longrightarrow>
     native_receivedSignalStrength N f3 = (sg, f4) \<longrightarrow>
     native_receivedNumber N f4 = (n, f5) \<longrightarrow>
     native_receivedString N f5 = (str, f6) \<longrightarrow>
     (\<exists>pre.
       (\<forall>cb. onReceivedValue N cb s =
          cb (Some str) (Some n) pre) \<and>
       firmware pre = f6)) \<and>
   (\<forall>r f1 t f2 sr f3 sg f4 str f5.
     native_receiveNumber N (firmware s) = (r, f1) \<longrightarrow>
     native_receivedTime N f1 = (t, f2) \<longrightarrow>
     native_receivedSerial N f2 = (sr, f3) \<longrightarrow>
     native_receivedSignalStrength N f3 = (sg, f4) \<longrightarrow>
     native_receivedString N f4 = (str, f5) \<longrightarrow>
     (\<exists>pre.
       (\<forall>cb. onReceivedString N cb s =
          cb (Some str) pre) \<and>
       firmware pre = f5)) \<and>
   (\<forall>r f1 t f2 sr f3 sg f4 b f5.
     native_receiveNumber N (firmware s) = (r, f1) \<longrightarrow>
     native_receivedTime N f1 = (t, f2) \<longrightarrow>
     native_receivedSerial N f2 = (sr, f3) \<longrightarrow>
     native_receivedSignalStrength N f3 = (sg, f4) \<longrightarrow>
     native_receivedBuffer N f4 = (b, f5) \<longrightarrow>
     (\<exists>pre.
       (\<forall>cb. onReceivedBuffer N cb s =
          cb (Some b) pre) \<and>
       firmware pre = f5))"
  (is "?DP \<and> ?NUM \<and> ?VAL \<and> ?STR \<and> ?BUF")
proof (intro conjI)
  show ?DP
  proof (intro allI impI)
    fix r f1 n f2 t f3 sr f4 str f5 b f6 sg f7
    assume 1: "native_receiveNumber N (firmware s) = (r, f1)"
      and 2: "native_receivedNumber N f1 = (n, f2)"
      and 3: "native_receivedTime N f2 = (t, f3)"
      and 4: "native_receivedSerial N f3 = (sr, f4)"
      and 5: "native_receivedString N f4 = (str, f5)"
      and 6: "native_receivedBuffer N f5 = (b, f6)"
      and 7: "native_receivedSignalStrength N f6 = (sg, f7)"
    note run = onDataPacketReceived_run [OF 1 2 3 4 5 6 7]
    let ?pre = "s\<lparr>firmware := f7,
                lastPacket := Some \<lparr>receivedNumber = Some n, receivedString = Some str,
                                 receivedBuffer = Some b, time = Some t,
                                 serial = Some sr, signal = Some sg\<rparr>,
                events := events s @
                  [Native ReceiveNumber (VNum r), Native ReceivedNumber (VNum n),
                   Native ReceivedTime (VNum t), Native ReceivedSerial (VNum sr),
                   Native ReceivedString (VStr str), Native ReceivedBuffer (VBuf b),
                   Native ReceivedSignalStrength (VNum sg),
                   Store \<lparr>receivedNumber = Some n, receivedString = Some str,
                          receivedBuffer = Some b, time = Some t,
                          serial = Some sr, signal = Some sg\<rparr>,
                   Callback]\<rparr>"
    show "\<exists>pre.
          (\<forall>cb. onDataPacketReceived N cb s =
             cb \<lparr>receivedNumber = Some n, receivedString = Some str,
                 receivedBuffer = Some b, time = Some t,
                 serial = Some sr, signal = Some sg\<rparr> pre) \<and>
          firmware pre = f7"
      by (rule exI [of _ ?pre]) (simp add: run)
  qed
next
  show ?NUM
  proof (intro allI impI)
    fix r f1 t f2 sr f3 sg f4 n f5
    assume 1: "native_receiveNumber N (firmware s) = (r, f1)"
      and 2: "native_receivedTime N f1 = (t, f2)"
      and 3: "native_receivedSerial N f2 = (sr, f3)"
      and 4: "native_receivedSignalStrength N f3 = (sg, f4)"
      and 5: "native_receivedNumber N f4 = (n, f5)"
    note run = onReceivedNumber_run [OF 1 2 3 4 5]
    let ?pre = "s\<lparr>firmware := f5,
                lastPacket := Some \<lparr>receivedNumber = Some n, receivedString = None,
                                 receivedBuffer = None, time = Some t,
                                 serial = Some sr, signal = Some sg\<rparr>,
                events := events s @
                  [Native ReceiveNumber (VNum r), Native ReceivedTime (VNum t),
                   Native ReceivedSerial (VNum sr), Native ReceivedSignalStrength (VNum sg),
                   Native ReceivedNumber (VNum n),
                   Store \<lparr>receivedNumber = Some n, receivedString = None,
                          receivedBuffer = None, time = Some t,
                          serial = Some sr, signal = Some sg\<rparr>,
                   Callback]\<rparr>"
    show "\<exists>pre.
          (\<forall>cb. onReceivedNumber N cb s =
             cb (Some n) pre) \<and>
          firmware pre = f5"
      by (rule exI [of _ ?pre]) (simp add: run)
  qed
next
  show ?VAL
  proof (intro allI impI)
    fix r f1 t f2 sr f3 sg f4 n f5 str f6
    assume 1: "native_receiveNumber N (firmware s) = (r, f1)"
      and 2: "native_receivedTime N f1 = (t, f2)"
      and 3: "native_receivedSerial N f2 = (sr, f3)"
      and 4: "native_receivedSignalStrength N f3 = (sg, f4)"
      and 5: "native_receivedNumber N f4 = (n, f5)"
      and 6: "native_receivedString N f5 = (str, f6)"
    note run = onReceivedValue_run [OF 1 2 3 4 5 6]
    let ?pre = "s\<lparr>firmware := f6,
                lastPacket := Some \<lparr>receivedNumber = Some n, receivedString = Some str,
                                 receivedBuffer = None, time = Some t,
                                 serial = Some sr, signal = Some sg\<rparr>,
                events := events s @
                  [Native ReceiveNumber (VNum r), Native ReceivedTime (VNum t),
                   Native ReceivedSerial (VNum sr), Native ReceivedSignalStrength (VNum sg),
                   Native ReceivedNumber (VNum n), Native ReceivedString (VStr str),
                   Store \<lparr>receivedNumber = Some n, receivedString = Some str,
                          receivedBuffer = None, time = Some t,
                          serial = Some sr, signal = Some sg\<rparr>,
                   Callback]\<rparr>"
    show "\<exists>pre.
          (\<forall>cb. onReceivedValue N cb s =
             cb (Some str) (Some n) pre) \<and>
          firmware pre = f6"
      by (rule exI [of _ ?pre]) (simp add: run)
  qed
next
  show ?STR
  proof (intro allI impI)
    fix r f1 t f2 sr f3 sg f4 str f5
    assume 1: "native_receiveNumber N (firmware s) = (r, f1)"
      and 2: "native_receivedTime N f1 = (t, f2)"
      and 3: "native_receivedSerial N f2 = (sr, f3)"
      and 4: "native_receivedSignalStrength N f3 = (sg, f4)"
      and 5: "native_receivedString N f4 = (str, f5)"
    note run = onReceivedString_run [OF 1 2 3 4 5]
    let ?pre = "s\<lparr>firmware := f5,
                lastPacket := Some \<lparr>receivedNumber = None, receivedString = Some str,
                                 receivedBuffer = None, time = Some t,
                                 serial = Some sr, signal = Some sg\<rparr>,
                events := events s @
                  [Native ReceiveNumber (VNum r), Native ReceivedTime (VNum t),
                   Native ReceivedSerial (VNum sr), Native ReceivedSignalStrength (VNum sg),
                   Native ReceivedString (VStr str),
                   Store \<lparr>receivedNumber = None, receivedString = Some str,
                          receivedBuffer = None, time = Some t,
                          serial = Some sr, signal = Some sg\<rparr>,
                   Callback]\<rparr>"
    show "\<exists>pre.
          (\<forall>cb. onReceivedString N cb s =
             cb (Some str) pre) \<and>
          firmware pre = f5"
      by (rule exI [of _ ?pre]) (simp add: run)
  qed
next
  show ?BUF
  proof (intro allI impI)
    fix r f1 t f2 sr f3 sg f4 b f5
    assume 1: "native_receiveNumber N (firmware s) = (r, f1)"
      and 2: "native_receivedTime N f1 = (t, f2)"
      and 3: "native_receivedSerial N f2 = (sr, f3)"
      and 4: "native_receivedSignalStrength N f3 = (sg, f4)"
      and 5: "native_receivedBuffer N f4 = (b, f5)"
    note run = onReceivedBuffer_run [OF 1 2 3 4 5]
    let ?pre = "s\<lparr>firmware := f5,
                lastPacket := Some \<lparr>receivedNumber = None, receivedString = None,
                                 receivedBuffer = Some b, time = Some t,
                                 serial = Some sr, signal = Some sg\<rparr>,
                events := events s @
                  [Native ReceiveNumber (VNum r), Native ReceivedTime (VNum t),
                   Native ReceivedSerial (VNum sr), Native ReceivedSignalStrength (VNum sg),
                   Native ReceivedBuffer (VBuf b),
                   Store \<lparr>receivedNumber = None, receivedString = None,
                          receivedBuffer = Some b, time = Some t,
                          serial = Some sr, signal = Some sg\<rparr>,
                   Callback]\<rparr>"
    show "\<exists>pre.
          (\<forall>cb. onReceivedBuffer N cb s =
             cb (Some b) pre) \<and>
          firmware pre = f5"
      by (rule exI [of _ ?pre]) (simp add: run)
  qed
qed

text \<open>
  C9. For each of the five registration functions, one invocation of the registered
  handler calls the dequeue hook \<open>receiveNumber()\<close> exactly once, before it reads any
  accessor: the dequeue runs on the firmware the invocation starts with, every accessor
  reads a firmware state that follows it, the firmware handed to the user callback is
  the result of that single dequeue followed by the handler's accessor reads, and the
  invocation's log starts with the dequeue and holds no other call of it up to the
  start of the callback.
\<close>

theorem handlers_dequeue_once_first:
  "(\<forall>r f1 n f2 t f3 sr f4 str f5 b f6 sg f7.
     native_receiveNumber N (firmware s) = (r, f1) \<longrightarrow>
     native_receivedNumber N f1 = (n, f2) \<longrightarrow>
     native_receivedTime N f2 = (t, f3) \<longrightarrow>
     native_receivedSerial N f3 = (sr, f4) \<longrightarrow>
     native_receivedString N f4 = (str, f5) \<longrightarrow>
     native_receivedBuffer N f5 = (b, f6) \<longrightarrow>
     native_receivedSignalStrength N f6 = (sg, f7) \<longrightarrow>
     (\<exists>pre rest.
       (\<forall>cb. onDataPacketReceived N cb s =
          cb \<lparr>receivedNumber = Some n, receivedString = Some str,
              receivedBuffer = Some b, time = Some t,
              serial = Some sr, signal = Some sg\<rparr> pre) \<and>
       firmware pre = f7 \<and>
       lastPacket pre = Some \<lparr>receivedNumber = Some n, receivedString = Some str,
                              receivedBuffer = Some b, time = Some t,
                              serial = Some sr, signal = Some sg\<rparr> \<and>
       events pre = events s @ Native ReceiveNumber (VNum r) # rest \<and>
       calls ReceiveNumber rest = 0)) \<and>
   (\<forall>r f1 t f2 sr f3 sg f4 n f5.
     native_receiveNumber N (firmware s) = (r, f1) \<longrightarrow>
     native_receivedTime N f1 = (t, f2) \<longrightarrow>
     native_receivedSerial N f2 = (sr, f3) \<longrightarrow>
     native_receivedSignalStrength N f3 = (sg, f4) \<longrightarrow>
     native_receivedNumber N f4 = (n, f5) \<longrightarrow>
     (\<exists>pre rest.
       (\<forall>cb. onReceivedNumber N cb s =
          cb (Some n) pre) \<and>
       firmware pre = f5 \<and>
       lastPacket pre = Some \<lparr>receivedNumber = Some n, receivedString = None,
                              receivedBuffer = None, time = Some t,
                              serial = Some sr, signal = Some sg\<rparr> \<and>
       events pre = events s @ Native ReceiveNumber (VNum r) # rest \<and>
       calls ReceiveNumber rest = 0)) \<and>
   (\<forall>r f1 t f2 sr f3 sg f4 n f5 str f6.
     native_receiveNumber N (firmware s) = (r, f1) \<longrightarrow>
     native_receivedTime N f1 = (t, f2) \<longrightarrow>
     native_receivedSerial N f2 = (sr, f3) \<longrightarrow>
     native_receivedSignalStrength N f3 = (sg, f4) \<longrightarrow>
     native_receivedNumber N f4 = (n, f5) \<longrightarrow>
     native_receivedString N f5 = (str, f6) \<longrightarrow>
     (\<exists>pre rest.
       (\<forall>cb. onReceivedValue N cb s =
          cb (Some str) (Some n) pre) \<and>
       firmware pre = f6 \<and>
       lastPacket pre = Some \<lparr>receivedNumber = Some n, receivedString = Some str,
                              receivedBuffer = None, time = Some t,
                              serial = Some sr, signal = Some sg\<rparr> \<and>
       events pre = events s @ Native ReceiveNumber (VNum r) # rest \<and>
       calls ReceiveNumber rest = 0)) \<and>
   (\<forall>r f1 t f2 sr f3 sg f4 str f5.
     native_receiveNumber N (firmware s) = (r, f1) \<longrightarrow>
     native_receivedTime N f1 = (t, f2) \<longrightarrow>
     native_receivedSerial N f2 = (sr, f3) \<longrightarrow>
     native_receivedSignalStrength N f3 = (sg, f4) \<longrightarrow>
     native_receivedString N f4 = (str, f5) \<longrightarrow>
     (\<exists>pre rest.
       (\<forall>cb. onReceivedString N cb s =
          cb (Some str) pre) \<and>
       firmware pre = f5 \<and>
       lastPacket pre = Some \<lparr>receivedNumber = None, receivedString = Some str,
                              receivedBuffer = None, time = Some t,
                              serial = Some sr, signal = Some sg\<rparr> \<and>
       events pre = events s @ Native ReceiveNumber (VNum r) # rest \<and>
       calls ReceiveNumber rest = 0)) \<and>
   (\<forall>r f1 t f2 sr f3 sg f4 b f5.
     native_receiveNumber N (firmware s) = (r, f1) \<longrightarrow>
     native_receivedTime N f1 = (t, f2) \<longrightarrow>
     native_receivedSerial N f2 = (sr, f3) \<longrightarrow>
     native_receivedSignalStrength N f3 = (sg, f4) \<longrightarrow>
     native_receivedBuffer N f4 = (b, f5) \<longrightarrow>
     (\<exists>pre rest.
       (\<forall>cb. onReceivedBuffer N cb s =
          cb (Some b) pre) \<and>
       firmware pre = f5 \<and>
       lastPacket pre = Some \<lparr>receivedNumber = None, receivedString = None,
                              receivedBuffer = Some b, time = Some t,
                              serial = Some sr, signal = Some sg\<rparr> \<and>
       events pre = events s @ Native ReceiveNumber (VNum r) # rest \<and>
       calls ReceiveNumber rest = 0))"
  (is "?DP \<and> ?NUM \<and> ?VAL \<and> ?STR \<and> ?BUF")
proof (intro conjI)
  show ?DP
  proof (intro allI impI)
    fix r f1 n f2 t f3 sr f4 str f5 b f6 sg f7
    assume 1: "native_receiveNumber N (firmware s) = (r, f1)"
      and 2: "native_receivedNumber N f1 = (n, f2)"
      and 3: "native_receivedTime N f2 = (t, f3)"
      and 4: "native_receivedSerial N f3 = (sr, f4)"
      and 5: "native_receivedString N f4 = (str, f5)"
      and 6: "native_receivedBuffer N f5 = (b, f6)"
      and 7: "native_receivedSignalStrength N f6 = (sg, f7)"
    note run = onDataPacketReceived_run [OF 1 2 3 4 5 6 7]
    let ?pre = "s\<lparr>firmware := f7,
                lastPacket := Some \<lparr>receivedNumber = Some n, receivedString = Some str,
                                 receivedBuffer = Some b, time = Some t,
                                 serial = Some sr, signal = Some sg\<rparr>,
                events := events s @
                  [Native ReceiveNumber (VNum r), Native ReceivedNumber (VNum n),
                   Native ReceivedTime (VNum t), Native ReceivedSerial (VNum sr),
                   Native ReceivedString (VStr str), Native ReceivedBuffer (VBuf b),
                   Native ReceivedSignalStrength (VNum sg),
                   Store \<lparr>receivedNumber = Some n, receivedString = Some str,
                          receivedBuffer = Some b, time = Some t,
                          serial = Some sr, signal = Some sg\<rparr>,
                   Callback]\<rparr>"
    let ?rest = "[Native ReceivedNumber (VNum n), Native ReceivedTime (VNum t),
                  Native ReceivedSerial (VNum sr), Native ReceivedString (VStr str),
                  Native ReceivedBuffer (VBuf b), Native ReceivedSignalStrength (VNum sg),
                  Store \<lparr>receivedNumber = Some n, receivedString = Some str,
                         receivedBuffer = Some b, time = Some t,
                         serial = Some sr, signal = Some sg\<rparr>,
                  Callback]"
    show "\<exists>pre rest.
          (\<forall>cb. onDataPacketReceived N cb s =
             cb \<lparr>receivedNumber = Some n, receivedString = Some str,
                 receivedBuffer = Some b, time = Some t,
                 serial = Some sr, signal = Some sg\<rparr> pre) \<and>
          firmware pre = f7 \<and>
          lastPacket pre = Some \<lparr>receivedNumber = Some n, receivedString = Some str,
                                 receivedBuffer = Some b, time = Some t,
                                 serial = Some sr, signal = Some sg\<rparr> \<and>
          events pre = events s @ Native ReceiveNumber (VNum r) # rest \<and>
          calls ReceiveNumber rest = 0"
      by (rule exI [of _ ?pre], rule exI [of _ ?rest]) (simp add: run)
  qed
next
  show ?NUM
  proof (intro allI impI)
    fix r f1 t f2 sr f3 sg f4 n f5
    assume 1: "native_receiveNumber N (firmware s) = (r, f1)"
      and 2: "native_receivedTime N f1 = (t, f2)"
      and 3: "native_receivedSerial N f2 = (sr, f3)"
      and 4: "native_receivedSignalStrength N f3 = (sg, f4)"
      and 5: "native_receivedNumber N f4 = (n, f5)"
    note run = onReceivedNumber_run [OF 1 2 3 4 5]
    let ?pre = "s\<lparr>firmware := f5,
                lastPacket := Some \<lparr>receivedNumber = Some n, receivedString = None,
                                 receivedBuffer = None, time = Some t,
                                 serial = Some sr, signal = Some sg\<rparr>,
                events := events s @
                  [Native ReceiveNumber (VNum r), Native ReceivedTime (VNum t),
                   Native ReceivedSerial (VNum sr), Native ReceivedSignalStrength (VNum sg),
                   Native ReceivedNumber (VNum n),
                   Store \<lparr>receivedNumber = Some n, receivedString = None,
                          receivedBuffer = None, time = Some t,
                          serial = Some sr, signal = Some sg\<rparr>,
                   Callback]\<rparr>"
    let ?rest = "[Native ReceivedTime (VNum t), Native ReceivedSerial (VNum sr),
                  Native ReceivedSignalStrength (VNum sg), Native ReceivedNumber (VNum n),
                  Store \<lparr>receivedNumber = Some n, receivedString = None,
                         receivedBuffer = None, time = Some t,
                         serial = Some sr, signal = Some sg\<rparr>,
                  Callback]"
    show "\<exists>pre rest.
          (\<forall>cb. onReceivedNumber N cb s =
             cb (Some n) pre) \<and>
          firmware pre = f5 \<and>
          lastPacket pre = Some \<lparr>receivedNumber = Some n, receivedString = None,
                                 receivedBuffer = None, time = Some t,
                                 serial = Some sr, signal = Some sg\<rparr> \<and>
          events pre = events s @ Native ReceiveNumber (VNum r) # rest \<and>
          calls ReceiveNumber rest = 0"
      by (rule exI [of _ ?pre], rule exI [of _ ?rest]) (simp add: run)
  qed
next
  show ?VAL
  proof (intro allI impI)
    fix r f1 t f2 sr f3 sg f4 n f5 str f6
    assume 1: "native_receiveNumber N (firmware s) = (r, f1)"
      and 2: "native_receivedTime N f1 = (t, f2)"
      and 3: "native_receivedSerial N f2 = (sr, f3)"
      and 4: "native_receivedSignalStrength N f3 = (sg, f4)"
      and 5: "native_receivedNumber N f4 = (n, f5)"
      and 6: "native_receivedString N f5 = (str, f6)"
    note run = onReceivedValue_run [OF 1 2 3 4 5 6]
    let ?pre = "s\<lparr>firmware := f6,
                lastPacket := Some \<lparr>receivedNumber = Some n, receivedString = Some str,
                                 receivedBuffer = None, time = Some t,
                                 serial = Some sr, signal = Some sg\<rparr>,
                events := events s @
                  [Native ReceiveNumber (VNum r), Native ReceivedTime (VNum t),
                   Native ReceivedSerial (VNum sr), Native ReceivedSignalStrength (VNum sg),
                   Native ReceivedNumber (VNum n), Native ReceivedString (VStr str),
                   Store \<lparr>receivedNumber = Some n, receivedString = Some str,
                          receivedBuffer = None, time = Some t,
                          serial = Some sr, signal = Some sg\<rparr>,
                   Callback]\<rparr>"
    let ?rest = "[Native ReceivedTime (VNum t), Native ReceivedSerial (VNum sr),
                  Native ReceivedSignalStrength (VNum sg), Native ReceivedNumber (VNum n),
                  Native ReceivedString (VStr str),
                  Store \<lparr>receivedNumber = Some n, receivedString = Some str,
                         receivedBuffer = None, time = Some t,
                         serial = Some sr, signal = Some sg\<rparr>,
                  Callback]"
    show "\<exists>pre rest.
          (\<forall>cb. onReceivedValue N cb s =
             cb (Some str) (Some n) pre) \<and>
          firmware pre = f6 \<and>
          lastPacket pre = Some \<lparr>receivedNumber = Some n, receivedString = Some str,
                                 receivedBuffer = None, time = Some t,
                                 serial = Some sr, signal = Some sg\<rparr> \<and>
          events pre = events s @ Native ReceiveNumber (VNum r) # rest \<and>
          calls ReceiveNumber rest = 0"
      by (rule exI [of _ ?pre], rule exI [of _ ?rest]) (simp add: run)
  qed
next
  show ?STR
  proof (intro allI impI)
    fix r f1 t f2 sr f3 sg f4 str f5
    assume 1: "native_receiveNumber N (firmware s) = (r, f1)"
      and 2: "native_receivedTime N f1 = (t, f2)"
      and 3: "native_receivedSerial N f2 = (sr, f3)"
      and 4: "native_receivedSignalStrength N f3 = (sg, f4)"
      and 5: "native_receivedString N f4 = (str, f5)"
    note run = onReceivedString_run [OF 1 2 3 4 5]
    let ?pre = "s\<lparr>firmware := f5,
                lastPacket := Some \<lparr>receivedNumber = None, receivedString = Some str,
                                 receivedBuffer = None, time = Some t,
                                 serial = Some sr, signal = Some sg\<rparr>,
                events := events s @
                  [Native ReceiveNumber (VNum r), Native ReceivedTime (VNum t),
                   Native ReceivedSerial (VNum sr), Native ReceivedSignalStrength (VNum sg),
                   Native ReceivedString (VStr str),
                   Store \<lparr>receivedNumber = None, receivedString = Some str,
                          receivedBuffer = None, time = Some t,
                          serial = Some sr, signal = Some sg\<rparr>,
                   Callback]\<rparr>"
    let ?rest = "[Native ReceivedTime (VNum t), Native ReceivedSerial (VNum sr),
                  Native ReceivedSignalStrength (VNum sg), Native ReceivedString (VStr str),
                  Store \<lparr>receivedNumber = None, receivedString = Some str,
                         receivedBuffer = None, time = Some t,
                         serial = Some sr, signal = Some sg\<rparr>,
                  Callback]"
    show "\<exists>pre rest.
          (\<forall>cb. onReceivedString N cb s =
             cb (Some str) pre) \<and>
          firmware pre = f5 \<and>
          lastPacket pre = Some \<lparr>receivedNumber = None, receivedString = Some str,
                                 receivedBuffer = None, time = Some t,
                                 serial = Some sr, signal = Some sg\<rparr> \<and>
          events pre = events s @ Native ReceiveNumber (VNum r) # rest \<and>
          calls ReceiveNumber rest = 0"
      by (rule exI [of _ ?pre], rule exI [of _ ?rest]) (simp add: run)
  qed
next
  show ?BUF
  proof (intro allI impI)
    fix r f1 t f2 sr f3 sg f4 b f5
    assume 1: "native_receiveNumber N (firmware s) = (r, f1)"
      and 2: "native_receivedTime N f1 = (t, f2)"
      and 3: "native_receivedSerial N f2 = (sr, f3)"
      and 4: "native_receivedSignalStrength N f3 = (sg, f4)"
      and 5: "native_receivedBuffer N f4 = (b, f5)"
    note run = onReceivedBuffer_run [OF 1 2 3 4 5]
    let ?pre = "s\<lparr>firmware := f5,
                lastPacket := Some \<lparr>receivedNumber = None, receivedString = None,
                                 receivedBuffer = Some b, time = Some t,
                                 serial = Some sr, signal = Some sg\<rparr>,
                events := events s @
                  [Native ReceiveNumber (VNum r), Native ReceivedTime (VNum t),
                   Native ReceivedSerial (VNum sr), Native ReceivedSignalStrength (VNum sg),
                   Native ReceivedBuffer (VBuf b),
                   Store \<lparr>receivedNumber = None, receivedString = None,
                          receivedBuffer = Some b, time = Some t,
                          serial = Some sr, signal = Some sg\<rparr>,
                   Callback]\<rparr>"
    let ?rest = "[Native ReceivedTime (VNum t), Native ReceivedSerial (VNum sr),
                  Native ReceivedSignalStrength (VNum sg), Native ReceivedBuffer (VBuf b),
                  Store \<lparr>receivedNumber = None, receivedString = None,
                         receivedBuffer = Some b, time = Some t,
                         serial = Some sr, signal = Some sg\<rparr>,
                  Callback]"
    show "\<exists>pre rest.
          (\<forall>cb. onReceivedBuffer N cb s =
             cb (Some b) pre) \<and>
          firmware pre = f5 \<and>
          lastPacket pre = Some \<lparr>receivedNumber = None, receivedString = None,
                                 receivedBuffer = Some b, time = Some t,
                                 serial = Some sr, signal = Some sg\<rparr> \<and>
          events pre = events s @ Native ReceiveNumber (VNum r) # rest \<and>
          calls ReceiveNumber rest = 0"
      by (rule exI [of _ ?pre], rule exI [of _ ?rest]) (simp add: run)
  qed
qed

subsection \<open>Concrete runs\<close>

text \<open>\<open>onReceivedNumber\<close> with a callback that does nothing, run once on the stand-in
  firmware with one number frame waiting.\<close>

lemma boot_onReceivedNumber:
  "onReceivedNumber queue_natives ignore boot =
     \<lparr>firmware = \<lparr>pending = [], current = number_frame\<rparr>,
      lastPacket = Some \<lparr>receivedNumber = Some 42, receivedString = None,
        receivedBuffer = None, time = Some 1000, serial = Some 7, signal = Some (- 60)\<rparr>,
      events =
        [Native ReceiveNumber (VNum 42), Native ReceivedTime (VNum 1000),
         Native ReceivedSerial (VNum 7), Native ReceivedSignalStrength (VNum (- 60)),
         Native ReceivedNumber (VNum 42),
         Store \<lparr>receivedNumber = Some 42, receivedString = None,
           receivedBuffer = None, time = Some 1000, serial = Some 7, signal = Some (- 60)\<rparr>,
         Callback]\<rparr>"
  by (simp add: onReceivedNumber_def run_defs queue_natives_def take_frame_def
      read_current_def boot_def ignore_def number_frame_def)

theorem getReceivedPacketProperty_no_packet_witness:
  "lastPacket boot = None \<and> getReceivedPacketProperty boot SerialNumber = Some 0"
proof -
  have h: "lastPacket boot = None"
    by (simp add: boot_def)
  show ?thesis
    using h getReceivedPacketProperty_no_packet [OF h, of SerialNumber] by simp
qed

theorem getReceivedPacketProperty_reads_fields_witness:
  "lastPacket (onReceivedNumber queue_natives ignore boot) =
     Some \<lparr>receivedNumber = Some 42, receivedString = None,
       receivedBuffer = None, time = Some 1000, serial = Some 7, signal = Some (- 60)\<rparr> \<and>
   getReceivedPacketProperty (onReceivedNumber queue_natives ignore boot) Time = Some 1000 \<and>
   getReceivedPacketProperty (onReceivedNumber queue_natives ignore boot) SerialNumber = Some 7 \<and>
   getReceivedPacketProperty (onReceivedNumber queue_natives ignore boot) SignalStrength =
     Some (- 60)"
proof -
  have h: "lastPacket (onReceivedNumber queue_natives ignore boot) =
     Some \<lparr>receivedNumber = Some 42, receivedString = None,
       receivedBuffer = None, time = Some 1000, serial = Some 7, signal = Some (- 60)\<rparr>"
    by (simp add: boot_onReceivedNumber)
  show ?thesis
    using h getReceivedPacketProperty_reads_fields [OF h] by simp
qed

theorem getReceivedPacketProperty_other_type_witness:
  "(3::int) \<noteq> Time \<and> (3::int) \<noteq> SerialNumber \<and> (3::int) \<noteq> SignalStrength \<and>
   lastPacket (onReceivedNumber queue_natives ignore boot) \<noteq> None \<and>
   getReceivedPacketProperty (onReceivedNumber queue_natives ignore boot) 3 = Some 0"
proof -
  have h: "(3::int) \<noteq> Time" "(3::int) \<noteq> SerialNumber" "(3::int) \<noteq> SignalStrength"
    by (simp_all add: Time_def SerialNumber_def SignalStrength_def)
  have l: "lastPacket (onReceivedNumber queue_natives ignore boot) \<noteq> None"
    by (simp add: boot_onReceivedNumber)
  show ?thesis
    using h l getReceivedPacketProperty_other_type
      [OF h, of "onReceivedNumber queue_natives ignore boot"]
    by simp
qed

text \<open>One invocation of each handler on the stand-in firmware with two frames waiting:
  the hooks' results are those of the first frame, and one frame is left waiting.\<close>

theorem handlers_store_before_callback_witness:
  "(\<exists>pre.
     (\<forall>cb. onDataPacketReceived queue_natives cb busy =
        cb \<lparr>receivedNumber = Some 5, receivedString = Some ''temp'',
            receivedBuffer = Some [1, 2, 3], time = Some 2000,
            serial = Some 9, signal = Some (- 42)\<rparr> pre) \<and>
     lastPacket pre = Some \<lparr>receivedNumber = Some 5, receivedString = Some ''temp'',
                            receivedBuffer = Some [1, 2, 3], time = Some 2000,
                            serial = Some 9, signal = Some (- 42)\<rparr> \<and>
     events pre = events busy @
       [Native ReceiveNumber (VNum 5), Native ReceivedNumber (VNum 5),
        Native ReceivedTime (VNum 2000), Native ReceivedSerial (VNum 9),
        Native ReceivedString (VStr ''temp''), Native ReceivedBuffer (VBuf [1, 2, 3]),
        Native ReceivedSignalStrength (VNum (- 42))] @
       [Store \<lparr>receivedNumber = Some 5, receivedString = Some ''temp'',
               receivedBuffer = Some [1, 2, 3], time = Some 2000,
               serial = Some 9, signal = Some (- 42)\<rparr>,
        Callback]) \<and>
   (\<exists>pre.
     (\<forall>cb. onReceivedNumber queue_natives cb busy =
        cb (Some 5) pre) \<and>
     lastPacket pre = Some \<lparr>receivedNumber = Some 5, receivedString = None,
                            receivedBuffer = None, time = Some 2000,
                            serial = Some 9, signal = Some (- 42)\<rparr> \<and>
     events pre = events busy @
       [Native ReceiveNumber (VNum 5), Native ReceivedTime (VNum 2000),
        Native ReceivedSerial (VNum 9), Native ReceivedSignalStrength (VNum (- 42)),
        Native ReceivedNumber (VNum 5)] @
       [Store \<lparr>receivedNumber = Some 5, receivedString = None,
               receivedBuffer = None, time = Some 2000,
               serial = Some 9, signal = Some (- 42)\<rparr>,
        Callback]) \<and>
   (\<exists>pre.
     (\<forall>cb. onReceivedValue queue_natives cb busy =
        cb (Some ''temp'') (Some 5) pre) \<and>
     lastPacket pre = Some \<lparr>receivedNumber = Some 5, receivedString = Some ''temp'',
                            receivedBuffer = None, time = Some 2000,
                            serial = Some 9, signal = Some (- 42)\<rparr> \<and>
     events pre = events busy @
       [Native ReceiveNumber (VNum 5), Native ReceivedTime (VNum 2000),
        Native ReceivedSerial (VNum 9), Native ReceivedSignalStrength (VNum (- 42)),
        Native ReceivedNumber (VNum 5), Native ReceivedString (VStr ''temp'')] @
       [Store \<lparr>receivedNumber = Some 5, receivedString = Some ''temp'',
               receivedBuffer = None, time = Some 2000,
               serial = Some 9, signal = Some (- 42)\<rparr>,
        Callback]) \<and>
   (\<exists>pre.
     (\<forall>cb. onReceivedString queue_natives cb busy =
        cb (Some ''temp'') pre) \<and>
     lastPacket pre = Some \<lparr>receivedNumber = None, receivedString = Some ''temp'',
                            receivedBuffer = None, time = Some 2000,
                            serial = Some 9, signal = Some (- 42)\<rparr> \<and>
     events pre = events busy @
       [Native ReceiveNumber (VNum 5), Native ReceivedTime (VNum 2000),
        Native ReceivedSerial (VNum 9), Native ReceivedSignalStrength (VNum (- 42)),
        Native ReceivedString (VStr ''temp'')] @
       [Store \<lparr>receivedNumber = None, receivedString = Some ''temp'',
               receivedBuffer = None, time = Some 2000,
               serial = Some 9, signal = Some (- 42)\<rparr>,
        Callback]) \<and>
   (\<exists>pre.
     (\<forall>cb. onReceivedBuffer queue_natives cb busy =
        cb (Some [1, 2, 3]) pre) \<and>
     lastPacket pre = Some \<lparr>receivedNumber = None, receivedString = None,
                            receivedBuffer = Some [1, 2, 3], time = Some 2000,
                            serial = Some 9, signal = Some (- 42)\<rparr> \<and>
     events pre = events busy @
       [Native ReceiveNumber (VNum 5), Native ReceivedTime (VNum 2000),
        Native ReceivedSerial (VNum 9), Native ReceivedSignalStrength (VNum (- 42)),
        Native ReceivedBuffer (VBuf [1, 2, 3])] @
       [Store \<lparr>receivedNumber = None, receivedString = None,
               receivedBuffer = Some [1, 2, 3], time = Some 2000,
               serial = Some 9, signal = Some (- 42)\<rparr>,
        Callback])"
  using handlers_store_before_callback [of queue_natives busy]
  by (simp add: queue_natives_def take_frame_def read_current_def busy_def value_frame_def)

theorem callbacks_receive_accessor_values_witness:
  "(\<exists>pre.
     (\<forall>cb. onDataPacketReceived queue_natives cb busy =
        cb \<lparr>receivedNumber = Some 5, receivedString = Some ''temp'',
            receivedBuffer = Some [1, 2, 3], time = Some 2000,
            serial = Some 9, signal = Some (- 42)\<rparr> pre) \<and>
     firmware pre = \<lparr>pending = [number_frame], current = value_frame\<rparr>) \<and>
   (\<exists>pre.
     (\<forall>cb. onReceivedNumber queue_natives cb busy =
        cb (Some 5) pre) \<and>
     firmware pre = \<lparr>pending = [number_frame], current = value_frame\<rparr>) \<and>
   (\<exists>pre.
     (\<forall>cb. onReceivedValue queue_natives cb busy =
        cb (Some ''temp'') (Some 5) pre) \<and>
     firmware pre = \<lparr>pending = [number_frame], current = value_frame\<rparr>) \<and>
   (\<exists>pre.
     (\<forall>cb. onReceivedString queue_natives cb busy =
        cb (Some ''temp'') pre) \<and>
     firmware pre = \<lparr>pending = [number_frame], current = value_frame\<rparr>) \<and>
   (\<exists>pre.
     (\<forall>cb. onReceivedBuffer queue_natives cb busy =
        cb (Some [1, 2, 3]) pre) \<and>
     firmware pre = \<lparr>pending = [number_frame], current = value_frame\<rparr>)"
  using callbacks_receive_accessor_values [of queue_natives busy]
  by (simp add: queue_natives_def take_frame_def read_current_def busy_def value_frame_def)

theorem handlers_dequeue_once_first_witness:
  "(\<exists>pre rest.
     (\<forall>cb. onDataPacketReceived queue_natives cb busy =
        cb \<lparr>receivedNumber = Some 5, receivedString = Some ''temp'',
            receivedBuffer = Some [1, 2, 3], time = Some 2000,
            serial = Some 9, signal = Some (- 42)\<rparr> pre) \<and>
     firmware pre = \<lparr>pending = [number_frame], current = value_frame\<rparr> \<and>
     lastPacket pre = Some \<lparr>receivedNumber = Some 5, receivedString = Some ''temp'',
                            receivedBuffer = Some [1, 2, 3], time = Some 2000,
                            serial = Some 9, signal = Some (- 42)\<rparr> \<and>
     events pre = events busy @ Native ReceiveNumber (VNum 5) # rest \<and>
     calls ReceiveNumber rest = 0) \<and>
   (\<exists>pre rest.
     (\<forall>cb. onReceivedNumber queue_natives cb busy =
        cb (Some 5) pre) \<and>
     firmware pre = \<lparr>pending = [number_frame], current = value_frame\<rparr> \<and>
     lastPacket pre = Some \<lparr>receivedNumber = Some 5, receivedString = None,
                            receivedBuffer = None, time = Some 2000,
                            serial = Some 9, signal = Some (- 42)\<rparr> \<and>
     events pre = events busy @ Native ReceiveNumber (VNum 5) # rest \<and>
     calls ReceiveNumber rest = 0) \<and>
   (\<exists>pre rest.
     (\<forall>cb. onReceivedValue queue_natives cb busy =
        cb (Some ''temp'') (Some 5) pre) \<and>
     firmware pre = \<lparr>pending = [number_frame], current = value_frame\<rparr> \<and>
     lastPacket pre = Some \<lparr>receivedNumber = Some 5, receivedString = Some ''temp'',
                            receivedBuffer = None, time = Some 2000,
                            serial = Some 9, signal = Some (- 42)\<rparr> \<and>
     events pre = events busy @ Native ReceiveNumber (VNum 5) # rest \<and>
     calls ReceiveNumber rest = 0) \<and>
   (\<exists>pre rest.
     (\<forall>cb. onReceivedString queue_natives cb busy =
        cb (Some ''temp'') pre) \<and>
     firmware pre = \<lparr>pending = [number_frame], current = value_frame\<rparr> \<and>
     lastPacket pre = Some \<lparr>receivedNumber = None, receivedString = Some ''temp'',
                            receivedBuffer = None, time = Some 2000,
                            serial = Some 9, signal = Some (- 42)\<rparr> \<and>
     events pre = events busy @ Native ReceiveNumber (VNum 5) # rest \<and>
     calls ReceiveNumber rest = 0) \<and>
   (\<exists>pre rest.
     (\<forall>cb. onReceivedBuffer queue_natives cb busy =
        cb (Some [1, 2, 3]) pre) \<and>
     firmware pre = \<lparr>pending = [number_frame], current = value_frame\<rparr> \<and>
     lastPacket pre = Some \<lparr>receivedNumber = None, receivedString = None,
                            receivedBuffer = Some [1, 2, 3], time = Some 2000,
                            serial = Some 9, signal = Some (- 42)\<rparr> \<and>
     events pre = events busy @ Native ReceiveNumber (VNum 5) # rest \<and>
     calls ReceiveNumber rest = 0)"
  using handlers_dequeue_once_first [of queue_natives busy]
  by (simp add: queue_natives_def take_frame_def read_current_def busy_def value_frame_def)

text \<open>The record \<open>onDataPacketReceived\<close> builds for the number frame.\<close>

lemma boot_onDataPacketReceived:
  "lastPacket (onDataPacketReceived queue_natives ignore boot) =
     Some \<lparr>receivedNumber = Some 42, receivedString = Some [],
       receivedBuffer = Some [], time = Some 1000, serial = Some 7, signal = Some (- 60)\<rparr>"
  by (simp add: onDataPacketReceived_def run_defs queue_natives_def take_frame_def
      read_current_def boot_def ignore_def number_frame_def)

text \<open>
  C4. The claim, like the field comments of \<open>Packet\<close> ("or the empty string if this
  packet did not contain a string", "or the empty buffer"), has the payload fields that
  a packet does not carry hold 0, the empty string and the empty buffer. The code does
  not do that in \<open>onReceivedNumber\<close>: for a number frame, the record it builds and
  retains has its string and buffer payload fields unassigned, neither the empty string
  nor the empty buffer, whereas \<open>onDataPacketReceived\<close> on the same frame assigns both
  from the accessors.
\<close>

theorem onReceivedNumber_payload_fields_unassigned:
  "lastPacket (onReceivedNumber queue_natives ignore boot) =
     Some \<lparr>receivedNumber = Some 42, receivedString = None,
       receivedBuffer = None, time = Some 1000, serial = Some 7, signal = Some (- 60)\<rparr> \<and>
   map_option receivedString (lastPacket (onReceivedNumber queue_natives ignore boot)) \<noteq>
     Some (Some []) \<and>
   map_option receivedBuffer (lastPacket (onReceivedNumber queue_natives ignore boot)) \<noteq>
     Some (Some []) \<and>
   map_option receivedString (lastPacket (onDataPacketReceived queue_natives ignore boot)) =
     Some (Some []) \<and>
   map_option receivedBuffer (lastPacket (onDataPacketReceived queue_natives ignore boot)) =
     Some (Some [])"
  by (simp add: boot_onReceivedNumber boot_onDataPacketReceived)

end
